theory Spec2Isabelle
  imports Complex_Main "HOL-Library.Sublist"
begin

section \<open>Python values, exceptions and the outside world\<close>

text \<open>
  A Python float by its exact value, or one of the values that are no real number: the
  infinities, NaN and the negative zero.
\<close>

datatype scalar = Finite real | Pos_inf | Neg_inf | NaN | Neg_zero

text \<open>
  Values decoded from a JSON body by \<^verbatim>\<open>response.json()\<close>. An integer literal decodes
  to an int of any size, every other number to a float; the decoder also accepts the
  literals for NaN and the infinities. A dict is an association list whose first binding
  of a key is the dict's value for it.
\<close>

datatype json =
    JNull
  | JBool bool
  | JInt int
  | JFloat scalar
  | JStr string
  | JList "json list"
  | JDict "(string \<times> json) list"

text \<open>Exceptions the script can meet. Each carries what identifies it, not its message
  text.\<close>

datatype exn =
    NameError string
  | KeyError
  | IndexError
  | TypeError
  | AttributeError
  | RequestException string
  | HTTPError string
  | JSONDecodeError string
  | ValueError string
  | InvalidHeader
  | OverflowError
  | GenerationFailed string

text \<open>Python truthiness, as used by \<^verbatim>\<open>if x:\<close> and \<^verbatim>\<open>not x\<close>.\<close>

fun truthy :: "json \<Rightarrow> bool" where
  "truthy JNull = False"
| "truthy (JBool b) = b"
| "truthy (JInt i) = (i \<noteq> 0)"
| "truthy (JFloat (Finite r)) = (r \<noteq> 0)"
| "truthy (JFloat Neg_zero) = False"
| "truthy (JFloat x) = True"
| "truthy (JStr s) = (s \<noteq> [])"
| "truthy (JList xs) = (xs \<noteq> [])"
| "truthy (JDict kvs) = (kvs \<noteq> [])"

text \<open>\<^verbatim>\<open>x.get(k)\<close>: only a dict has the method; a missing key gives None.\<close>

fun py_get :: "json \<Rightarrow> string \<Rightarrow> exn + json" where
  "py_get (JDict kvs) k = Inr (case map_of kvs k of None \<Rightarrow> JNull | Some v \<Rightarrow> v)"
| "py_get _ k = Inl AttributeError"

text \<open>\<^verbatim>\<open>x.get(k, d)\<close> with a default.\<close>

fun py_get_default :: "json \<Rightarrow> string \<Rightarrow> json \<Rightarrow> exn + json" where
  "py_get_default (JDict kvs) k d = Inr (case map_of kvs k of None \<Rightarrow> d | Some v \<Rightarrow> v)"
| "py_get_default _ k d = Inl AttributeError"

text \<open>\<^verbatim>\<open>k in x\<close> for a string \<open>k\<close>: key membership in a dict, element membership in a
  list, substring test in a string, TypeError on anything else.\<close>

fun py_contains :: "string \<Rightarrow> json \<Rightarrow> exn + bool" where
  "py_contains k (JDict kvs) = Inr (k \<in> set (map fst kvs))"
| "py_contains k (JList xs) = Inr (JStr k \<in> set xs)"
| "py_contains k (JStr s) = Inr (sublist k s)"
| "py_contains k _ = Inl TypeError"

text \<open>\<^verbatim>\<open>x[k]\<close> for a string \<open>k\<close>: a dict looks the key up, every other type refuses.\<close>

fun py_item :: "json \<Rightarrow> string \<Rightarrow> exn + json" where
  "py_item (JDict kvs) k = (case map_of kvs k of None \<Rightarrow> Inl KeyError | Some v \<Rightarrow> Inr v)"
| "py_item _ k = Inl TypeError"

text \<open>\<^verbatim>\<open>x[0]\<close>: the first element of a list, the first character of a string,
  IndexError when either is empty, KeyError on a dict (the keys of a decoded JSON object
  are strings), TypeError on the rest.\<close>

fun py_first :: "json \<Rightarrow> exn + json" where
  "py_first (JList (x # xs)) = Inr x"
| "py_first (JList []) = Inl IndexError"
| "py_first (JStr (c # cs)) = Inr (JStr [c])"
| "py_first (JStr []) = Inl IndexError"
| "py_first (JDict kvs) = Inl KeyError"
| "py_first _ = Inl TypeError"

text \<open>An HTTP request as \<^verbatim>\<open>requests.get(url, headers=..., params=...)\<close> sends it.\<close>

record request =
  url :: string
  headers :: "(string \<times> string) list"
  params :: "(string \<times> string) list"

text \<open>
  What becomes of a request handed to \<^verbatim>\<open>requests.get\<close>: the call raises (the library
  refuses the request as prepared, for instance a header value that starts with a blank
  or holds a line break, or the transport fails), or \<^verbatim>\<open>raise_for_status\<close> raises on a
  status that is not 2xx, or \<^verbatim>\<open>response.json()\<close> raises on a body that is not JSON, or
  the body decodes to a value.
\<close>

datatype http_outcome =
    Get_raises string
  | Status_raises string
  | Json_raises string
  | Json_body json

text \<open>A row of the DataFrame of lines 269 to 276: the six values as they were taken out
  of the listing, whatever their type.\<close>

record coin =
  name :: json
  symbol :: json
  price :: json
  market_cap :: json
  volume_24h :: json
  change_24h :: json

text \<open>What the user sees, in order, and the requests handed to \<^verbatim>\<open>requests.get\<close>. A
  chart is recorded by what it was drawn from: the frame of the treemap, the symbols of
  the coins with a price line, the value of the gauge.\<close>

datatype chart =
    Treemap "coin list"
  | Price_lines "json list"
  | Gauge scalar

datatype ui_event =
    St_error string
  | St_error_exc string exn
  | St_metric string string
  | St_markdown string
  | St_subheader string
  | St_tabs "string list"
  | St_plotly chart
  | St_dataframe_sorted_desc string "coin list"

record session =
  ui :: "ui_event list"
  sent :: "request list"

definition show_ui :: "ui_event \<Rightarrow> session \<Rightarrow> session" where
  "show_ui e s = s\<lparr>ui := ui s @ [e]\<rparr>"

definition send :: "request \<Rightarrow> session \<Rightarrow> session" where
  "send r s = s\<lparr>sent := sent s @ [r]\<rparr>"

definition fresh :: session where
  "fresh = \<lparr>ui = [], sent = []\<rparr>"

section \<open>Module globals\<close>

text \<open>
  Lines 20 to 29: three environment variables are read and the script refuses to start
  when one is missing or empty.
\<close>

record config =
  coinmarketcap_api_key :: string
  gemini_api_key :: string
  model :: string

definition load_config :: "(string \<rightharpoonup> string) \<Rightarrow> exn + config" where
  "load_config env =
    (case env ''COINMARKETCAP_API_KEY'' of
       None \<Rightarrow> Inl (ValueError ''Missing environment variable: COINMARKETCAP_API_KEY'')
     | Some k \<Rightarrow>
        if k = [] then Inl (ValueError ''Missing environment variable: COINMARKETCAP_API_KEY'')
        else (case env ''GEMINI_API_KEY'' of
           None \<Rightarrow> Inl (ValueError ''Missing environment variable: GEMINI_API_KEY'')
         | Some g \<Rightarrow>
            if g = [] then Inl (ValueError ''Missing environment variable: GEMINI_API_KEY'')
            else (case env ''MODEL'' of
               None \<Rightarrow> Inl (ValueError ''Missing environment variable: MODEL'')
             | Some m \<Rightarrow>
                if m = [] then Inl (ValueError ''Missing environment variable: MODEL'')
                else Inr \<lparr>coinmarketcap_api_key = k, gemini_api_key = g, model = m\<rparr>)))"

text \<open>
  The names the module has bound when the button handler runs. A name is either one of
  the three strings read from the environment or some other object (a module, a class, a
  function, a widget value, an agent, a task). The names the interpreter adds by itself
  (the builtins, looked up after the module's names, and the module's double-underscore
  attributes) are left out: none of them is spelled \<^verbatim>\<open>COINMARKETCAP_API\<close>.
\<close>

datatype pyval = Py_str string | Py_object

definition module_globals :: "config \<Rightarrow> (string \<times> pyval) list" where
  "module_globals cfg =
    map (\<lambda>n. (n, Py_object))
      [''os'', ''time'', ''datetime'', ''timedelta'', ''st'', ''pd'', ''requests'', ''px'', ''go'',
       ''load_dotenv'', ''Task'', ''Agent'', ''Crew'', ''LLM'', ''SerperDevTool'']
    @ [(''COINMARKETCAP_API_KEY'', Py_str (coinmarketcap_api_key cfg)),
       (''GEMINI_API_KEY'', Py_str (gemini_api_key cfg)),
       (''MODEL'', Py_str (model cfg))]
    @ map (\<lambda>n. (n, Py_object))
      [''llm'', ''fetch_market_data'', ''fetch_live_sentiment_data'',
       ''generate_sentiment_analysis'', ''timeframe'', ''top_n'', ''update_freq'', ''use_case'',
       ''additional_note'', ''today_str'', ''market_analysis_description'',
       ''technical_analysis_description'', ''sentiment_task_description'',
       ''report_generation_description'', ''market_researcher'', ''technical_analyst'',
       ''news_analyst'', ''report_writer'', ''market_analysis'', ''technical_analysis'',
       ''sentiment_task'', ''report_generation'', ''crypto_crew'']"

text \<open>Reading a global name: an unbound name raises NameError.\<close>

definition lookup_name :: "(string \<times> pyval) list \<Rightarrow> string \<Rightarrow> exn + pyval" where
  "lookup_name g n = (case map_of g n of None \<Rightarrow> Inl (NameError n) | Some v \<Rightarrow> Inr v)"

section \<open>Fetching market data\<close>

definition market_url :: string where
  "market_url = ''https://pro-api.coinmarketcap.com/v1/cryptocurrency/listings/latest''"

definition market_params :: "(string \<times> string) list" where
  "market_params =
    [(''start'', ''1''), (''limit'', ''20''), (''convert'', ''USD''),
     (''sort'', ''market_cap''), (''sort_dir'', ''desc'')]"

definition market_request :: "string \<Rightarrow> request" where
  "market_request key =
    \<lparr>url = market_url, headers = [(''X-CMC_PRO_API_KEY'', key)], params = market_params\<rparr>"

text \<open>
  \<^verbatim>\<open>fetch_market_data\<close>, lines 36 to 58. The url, the params and the headers are built
  before the \<^verbatim>\<open>try\<close>; the header value is the global \<^verbatim>\<open>COINMARKETCAP_API\<close>. Only the
  request, the status check and the decoding stand inside the \<^verbatim>\<open>try\<close>, whose handler
  reports the exception and returns the empty dict. A header value that is a string goes
  to \<^verbatim>\<open>requests.get\<close> as it is; one that is no string is refused there.
\<close>

definition fetch_market_data ::
  "(string \<times> pyval) list \<Rightarrow> (request \<Rightarrow> http_outcome) \<Rightarrow> session \<Rightarrow> (exn + json) \<times> session" where
  "fetch_market_data g net s =
    (case lookup_name g ''COINMARKETCAP_API'' of
       Inl e \<Rightarrow> (Inl e, s)
     | Inr v \<Rightarrow>
        (case v of
           Py_object \<Rightarrow>
             (Inr (JDict []), show_ui (St_error_exc ''Error fetching market data: '' InvalidHeader) s)
         | Py_str key \<Rightarrow>
             (let r = market_request key; s1 = send r s in
              case net r of
                Get_raises m \<Rightarrow>
                  (Inr (JDict []),
                   show_ui (St_error_exc ''Error fetching market data: '' (RequestException m)) s1)
              | Status_raises m \<Rightarrow>
                  (Inr (JDict []),
                   show_ui (St_error_exc ''Error fetching market data: '' (HTTPError m)) s1)
              | Json_raises m \<Rightarrow>
                  (Inr (JDict []),
                   show_ui (St_error_exc ''Error fetching market data: '' (JSONDecodeError m)) s1)
              | Json_body j \<Rightarrow> (Inr j, s1))))"

section \<open>Fetching the sentiment index\<close>

definition sentiment_request :: request where
  "sentiment_request = \<lparr>url = ''https://api.alternative.me/fng/?limit=1'', headers = [], params = []\<rparr>"

text \<open>Lines 72 to 75, on the decoded body: \<^verbatim>\<open>"data" in data and data["data"]\<close>, then
  \<^verbatim>\<open>data["data"][0]\<close> or the empty dict.\<close>

definition sentiment_record :: "json \<Rightarrow> exn + json" where
  "sentiment_record data =
    (case py_contains ''data'' data of
       Inl e \<Rightarrow> Inl e
     | Inr False \<Rightarrow> Inr (JDict [])
     | Inr True \<Rightarrow>
        (case py_item data ''data'' of
           Inl e \<Rightarrow> Inl e
         | Inr d \<Rightarrow> if truthy d then py_first d else Inr (JDict [])))"

text \<open>\<^verbatim>\<open>fetch_live_sentiment_data\<close>, lines 60 to 78: the whole body after the url stands
  inside the \<^verbatim>\<open>try\<close>.\<close>

definition sentiment_failed :: "exn \<Rightarrow> session \<Rightarrow> (exn + json) \<times> session" where
  "sentiment_failed e s =
    (Inr (JDict []), show_ui (St_error_exc ''Error fetching live sentiment data: '' e) s)"

definition fetch_live_sentiment_data ::
  "(request \<Rightarrow> http_outcome) \<Rightarrow> session \<Rightarrow> (exn + json) \<times> session" where
  "fetch_live_sentiment_data net s =
    (let s1 = send sentiment_request s in
     case net sentiment_request of
       Get_raises m \<Rightarrow> sentiment_failed (RequestException m) s1
     | Status_raises m \<Rightarrow> sentiment_failed (HTTPError m) s1
     | Json_raises m \<Rightarrow> sentiment_failed (JSONDecodeError m) s1
     | Json_body j \<Rightarrow>
        (case sentiment_record j of
           Inl e \<Rightarrow> sentiment_failed e s1
         | Inr v \<Rightarrow> (Inr v, s1)))"

text \<open>
  Functions the script calls and does not define, taken as given: the builtins \<^verbatim>\<open>str\<close>
  (on a value that is not a string) and \<^verbatim>\<open>float\<close>; of pandas, the sum and the mean of
  a column (rounding, integer wrap-around, the skipping of missing entries and the order
  of summation are theirs; a sum that is no number fails at the division on the same line
  and is reported as raising) and the sorting of the frame; the division of a number by a
  float; of plotly, the drawing of the treemap (lines 321 to 327) and of one price line
  (lines 336 to 346). The last three only say whether the call raises.
\<close>

record builtins =
  py_str :: "json \<Rightarrow> string"
  py_float :: "json \<Rightarrow> exn + scalar"
  series_sum :: "json list \<Rightarrow> exn + scalar"
  series_mean :: "json list \<Rightarrow> exn + scalar"
  true_divide :: "scalar \<Rightarrow> real \<Rightarrow> exn + scalar"
  px_treemap :: "coin list \<Rightarrow> exn option"
  price_trace :: "coin \<Rightarrow> exn option"
  sort_values :: "coin list \<Rightarrow> exn option"

text \<open>A value interpolated into an f-string: a string goes in as it is.\<close>

fun interpolate :: "builtins \<Rightarrow> json \<Rightarrow> string" where
  "interpolate b (JStr s) = s"
| "interpolate b v = py_str b v"

definition sentiment_unavailable_text :: string where
  "sentiment_unavailable_text = ''Live sentiment data is currently unavailable.''"

text \<open>\<^verbatim>\<open>generate_sentiment_analysis\<close>, lines 80 to 96. The two \<^verbatim>\<open>.get\<close> calls are not
  guarded.\<close>

definition generate_sentiment_analysis ::
  "builtins \<Rightarrow> (request \<Rightarrow> http_outcome) \<Rightarrow> session \<Rightarrow> (exn + json \<times> string) \<times> session" where
  "generate_sentiment_analysis b net s =
    (case fetch_live_sentiment_data net s of
       (Inl e, s1) \<Rightarrow> (Inl e, s1)
     | (Inr sentiment_data, s1) \<Rightarrow>
        if truthy sentiment_data then
          (case py_get_default sentiment_data ''value'' (JStr ''N/A'') of
             Inl e \<Rightarrow> (Inl e, s1)
           | Inr v \<Rightarrow>
              (case py_get_default sentiment_data ''value_classification'' (JStr ''Unknown'') of
                 Inl e \<Rightarrow> (Inl e, s1)
               | Inr c \<Rightarrow>
                  (Inr (sentiment_data,
                        ''The current Crypto Fear & Greed Index is **'' @ interpolate b v @ ''** ''
                        @ ''('' @ interpolate b c @ ''). ''
                        @ ''This reflects the overall market sentiment as of now.''), s1)))
        else (Inr (sentiment_data, sentiment_unavailable_text), s1))"

text \<open>The value handed to the gauge, line 363.\<close>

definition gauge_value :: "builtins \<Rightarrow> json \<Rightarrow> exn + scalar" where
  "gauge_value b sentiment_data =
    (case py_get_default sentiment_data ''value'' (JInt 0) of
       Inl e \<Rightarrow> Inl e
     | Inr v \<Rightarrow> py_float b v)"

text \<open>The sentiment tab, lines 356 to 382. The gauge is drawn inside a \<^verbatim>\<open>try\<close>; the call
  of \<^verbatim>\<open>generate_sentiment_analysis\<close> is not.\<close>

definition sentiment_tab ::
  "builtins \<Rightarrow> (request \<Rightarrow> http_outcome) \<Rightarrow> session \<Rightarrow> (exn + unit) \<times> session" where
  "sentiment_tab b net s =
    (case generate_sentiment_analysis b net (show_ui (St_subheader ''Market Sentiment Analysis'') s) of
       (Inl e, s1) \<Rightarrow> (Inl e, s1)
     | (Inr (sentiment_data, sentiment_report), s1) \<Rightarrow>
        (let s2 =
           (if truthy sentiment_data then
              (case gauge_value b sentiment_data of
                 Inl e \<Rightarrow> show_ui (St_error_exc ''Error displaying gauge chart: '' e) s1
               | Inr v \<Rightarrow> show_ui (St_plotly (Gauge v)) s1)
            else s1)
         in (Inr (),
             show_ui (St_markdown sentiment_report)
               (show_ui (St_markdown ''### Sentiment Analysis Report'') s2))))"

section \<open>User inputs and task descriptions\<close>

datatype timeframe = TF_24H | TF_7D | TF_30D | TF_90D

fun timeframe_str :: "timeframe \<Rightarrow> string" where
  "timeframe_str TF_24H = ''24H''"
| "timeframe_str TF_7D = ''7D''"
| "timeframe_str TF_30D = ''30D''"
| "timeframe_str TF_90D = ''90D''"

datatype update_freq = Every_1min | Every_5min | Every_15min

datatype use_case = General_Overview | In_depth_Technical_Analysis | Sentiment_Focused | Custom

text \<open>The sidebar, lines 127 to 134. The slider gives an integer from 5 to 20.\<close>

record parameters =
  timeframe :: timeframe
  top_n :: int
  update_freq :: update_freq
  use_case :: use_case
  additional_note :: string

definition valid_parameters :: "parameters \<Rightarrow> bool" where
  "valid_parameters p \<longleftrightarrow> 5 \<le> top_n p \<and> top_n p \<le> 20"

text \<open>Decimal rendering of an integer, as an f-string writes it.\<close>

definition digit_char :: "nat \<Rightarrow> char" where
  "digit_char d = ''0123456789'' ! d"

fun nat_str :: "nat \<Rightarrow> string" where
  "nat_str n = (if n < 10 then [digit_char n] else nat_str (n div 10) @ [digit_char (n mod 10)])"

declare nat_str.simps [simp del]

definition int_str :: "int \<Rightarrow> string" where
  "int_str i = (if i < 0 then ''-'' @ nat_str (nat (- i)) else nat_str (nat i))"

text \<open>Lines 142 to 171. \<open>today\<close> is \<^verbatim>\<open>today_str\<close>, the date as
  \<^verbatim>\<open>strftime("%B %d, %Y")\<close> wrote it when the script started.\<close>

definition report_date_line :: "string \<Rightarrow> string" where
  "report_date_line today = ''**Report Date:** '' @ today @ ''\<newline>''"

definition market_analysis_description :: "string \<Rightarrow> parameters \<Rightarrow> string" where
  "market_analysis_description today p =
    report_date_line today
    @ ''1. Analyze current market conditions and trends over the past ''
    @ timeframe_str (timeframe p) @ ''.\<newline>''
    @ ''2. Focus on the top '' @ int_str (top_n p) @ '' cryptocurrencies by market cap.\<newline>''
    @ ''3. Identify key market drivers, catalysts, and risks.\<newline>''
    @ ''4. Evaluate overall market sentiment and momentum.\<newline>''
    @ ''5. Generate price predictions and risk assessments.''"

definition technical_analysis_description :: "string \<Rightarrow> parameters \<Rightarrow> string" where
  "technical_analysis_description today p =
    report_date_line today
    @ ''1. Perform technical analysis on the top '' @ int_str (top_n p)
    @ '' cryptocurrencies over the past '' @ timeframe_str (timeframe p) @ ''.\<newline>''
    @ ''2. Generate trading signals and identify chart patterns.\<newline>''
    @ ''3. Calculate key technical indicators (RSI, MACD, MA).\<newline>''
    @ ''4. Identify support and resistance levels.\<newline>''
    @ ''5. Provide probability-based trade recommendations.''"

definition sentiment_task_description :: "string \<Rightarrow> parameters \<Rightarrow> string" where
  "sentiment_task_description today p =
    report_date_line today
    @ ''1. Analyze the latest news and social media sentiment.\<newline>''
    @ ''2. Summarize market sentiment trends over the past ''
    @ timeframe_str (timeframe p) @ ''.\<newline>''
    @ ''3. Identify the impact of recent events on market sentiment.''"

definition report_generation_description :: "string \<Rightarrow> parameters \<Rightarrow> string" where
  "report_generation_description today p =
    report_date_line today
    @ ''1. Synthesize all previous analyses into a final, concise report.\<newline>''
    @ ''2. Create an executive summary with key findings and actionable recommendations.\<newline>''
    @ ''3. Highlight the most critical market insights from the data and analysis.''
    @ (if additional_note p \<noteq> [] then ''\<newline>Note: '' @ additional_note p else [])"

section \<open>Agents, tasks and the crew\<close>

text \<open>Lines 177 to 223. \<open>tools\<close> holds the result count of each search tool.\<close>

record agent =
  role :: string
  goal :: string
  backstory :: string
  tools :: "nat list"

record task =
  description :: string
  expected_output :: string
  agent :: agent

definition market_researcher :: agent where
  "market_researcher =
    \<lparr>role = ''Senior Market Research Analyst'',
     goal = ''Analyze current market conditions, trends, and provide investment insights.'',
     backstory = ''A seasoned analyst with deep knowledge of cryptocurrency markets. ''
       @ ''Expert in identifying trends and emerging opportunities through data-driven analysis.'',
     tools = [5]\<rparr>"

definition technical_analyst :: agent where
  "technical_analyst =
    \<lparr>role = ''Technical Analysis Specialist'',
     goal = ''Perform technical analysis and generate trading signals.'',
     backstory = ''A quantitative analyst with expertise in technical indicators and chart patterns. ''
       @ ''Skilled in using RSI, MACD, and moving averages to provide actionable trade recommendations.'',
     tools = [5]\<rparr>"

definition news_analyst :: agent where
  "news_analyst =
    \<lparr>role = ''Crypto News & Sentiment Analyst'',
     goal = ''Monitor news, social media, and overall market sentiment.'',
     backstory = ''An expert in analyzing the impact of news and social media on crypto markets. ''
       @ ''Capable of identifying key events that drive market sentiment.'',
     tools = [5]\<rparr>"

definition report_writer :: agent where
  "report_writer =
    \<lparr>role = ''Financial Report Writer'',
     goal = ''Create comprehensive investment reports with actionable insights.'',
     backstory = ''Experienced in crafting detailed financial reports and investment recommendations. ''
       @ ''Specializes in presenting complex analysis in a clear and concise manner.'',
     tools = [10]\<rparr>"

text \<open>Lines 226 to 248.\<close>

definition market_analysis :: "string \<Rightarrow> parameters \<Rightarrow> task" where
  "market_analysis today p =
    \<lparr>description = market_analysis_description today p,
     expected_output = ''A concise market analysis report summarizing current conditions, ''
       @ ''trends, price predictions, and risk factors.'',
     agent = market_researcher\<rparr>"

definition technical_analysis :: "string \<Rightarrow> parameters \<Rightarrow> task" where
  "technical_analysis today p =
    \<lparr>description = technical_analysis_description today p,
     expected_output = ''A concise technical analysis report with key trading signals, ''
       @ ''support/resistance levels, and indicator summaries.'',
     agent = technical_analyst\<rparr>"

definition sentiment_task :: "string \<Rightarrow> parameters \<Rightarrow> task" where
  "sentiment_task today p =
    \<lparr>description = sentiment_task_description today p,
     expected_output = ''A brief sentiment analysis summary including overall sentiment scores ''
       @ ''and key drivers.'',
     agent = news_analyst\<rparr>"

definition report_generation :: "string \<Rightarrow> parameters \<Rightarrow> task" where
  "report_generation today p =
    \<lparr>description = report_generation_description today p,
     expected_output = ''A final executive report that includes an overview of the current market, ''
       @ ''key technical insights, sentiment analysis, and recommendations for top long and ''
       @ ''short-term investment opportunities.'',
     agent = report_writer\<rparr>"

text \<open>The task list of \<^verbatim>\<open>crypto_crew\<close>, line 252.\<close>

definition crew_tasks :: "string \<Rightarrow> parameters \<Rightarrow> task list" where
  "crew_tasks today p =
    [market_analysis today p, technical_analysis today p, sentiment_task today p,
     report_generation today p]"

section \<open>The pipeline orchestrator\<close>

text \<open>
  Modelled from the spec: the search tool and the language model behind an agent, which
  the script reaches only through the \<^verbatim>\<open>crewai\<close> library. A search hit is a title, a
  snippet and a url. The outcomes are indexed by the position of the task in the run, so
  that two calls on equal inputs may differ. \<open>tool_invoke\<close> gives \<open>None\<close> for
  ToolUnavailable; \<open>llm_generate\<close> gives \<open>Inl\<close> for GenerationFailed.
\<close>

type_synonym search_hit = "string \<times> string \<times> string"

text \<open>Modelled from the spec: the input of one generation call, section 4.2 (system
  context, instruction, prior context, tool results); the library that builds it is not
  part of the script.\<close>

record prompt =
  system_context :: string
  instruction :: string
  prior_context :: "string list"
  tool_results :: "search_hit list option"

text \<open>Modelled from the spec: the collaborators of a run, sections 4.1 and 4.2: the
  network, the agent's decision to search, the search tool and the language model; the
  script reaches the last three only through the library.\<close>

record world =
  net :: "request \<Rightarrow> http_outcome"
  wants_tools :: "nat \<Rightarrow> bool"
  tool_invoke :: "nat \<Rightarrow> string \<Rightarrow> nat \<Rightarrow> search_hit list option"
  llm_generate :: "nat \<Rightarrow> prompt \<Rightarrow> string + string"

text \<open>
  Modelled from the spec: the agent of section 4.3. It may call its tools before the one
  generation call; a tool that is unavailable contributes nothing and the agent goes on.
  The prompt is assembled from persona, role and goal, from the task's description and
  expected output, from the outputs accumulated so far and from the tool results.
\<close>

definition gather_tool_results :: "world \<Rightarrow> nat \<Rightarrow> task \<Rightarrow> search_hit list option" where
  "gather_tool_results w i t =
    (if wants_tools w i
     then Some (concat (List.map_filter (\<lambda>n. tool_invoke w i (description t) n) (tools (agent t))))
     else None)"

text \<open>Modelled from the spec: the prompt assembly of section 4.3, which the library does
  for the script.\<close>

definition build_prompt :: "world \<Rightarrow> nat \<Rightarrow> task \<Rightarrow> (string \<times> string) list \<Rightarrow> prompt" where
  "build_prompt w i t ctx =
    \<lparr>system_context = backstory (agent t) @ ''\<newline>'' @ role (agent t) @ ''\<newline>'' @ goal (agent t),
     instruction = description t @ ''\<newline>'' @ expected_output t,
     prior_context = map snd ctx,
     tool_results = gather_tool_results w i t\<rparr>"

text \<open>
  Modelled from the spec: the run state of section 3 and the execution algorithm of
  section 4.4, which \<^verbatim>\<open>Crew.kickoff\<close> stands for. \<open>executed\<close> records, for every task
  that was started, the prompt it was given and what generation returned.
\<close>

datatype status = Pending | Running | Completed | Failed

text \<open>Modelled from the spec: the pipeline run state of section 3, kept by the library,
  with the record of executed tasks and the result handed back to the caller.\<close>

record run =
  status :: status
  accumulated_context :: "(string \<times> string) list"
  executed :: "(task \<times> prompt \<times> (string + string)) list"
  outcome :: "exn + string"
  failed_role :: "string option"

text \<open>Modelled from the spec: steps 2 and 3 of section 4.4, the loop inside
  \<^verbatim>\<open>Crew.kickoff\<close>: the tasks in declared order, the output appended to the context on
  success, the run ended as failed on the first generation failure, and on completion the
  output of the final task as the result.\<close>

fun run_tasks :: "world \<Rightarrow> task list \<Rightarrow> run \<Rightarrow> run" where
  "run_tasks w [] r =
    r\<lparr>status := Completed,
      outcome := Inr (if accumulated_context r = [] then [] else snd (last (accumulated_context r)))\<rparr>"
| "run_tasks w (t # ts) r =
    (let i = length (executed r); pr = build_prompt w i t (accumulated_context r) in
     case llm_generate w i pr of
       Inl reason \<Rightarrow>
         r\<lparr>status := Failed,
           executed := executed r @ [(t, pr, Inl reason)],
           outcome := Inl (GenerationFailed reason),
           failed_role := Some (role (agent t))\<rparr>
     | Inr text \<Rightarrow>
         run_tasks w ts
           (r\<lparr>accumulated_context := accumulated_context r @ [(role (agent t), text)],
              executed := executed r @ [(t, pr, Inr text)]\<rparr>))"

text \<open>Modelled from the spec: step 1 of section 4.4, the start of \<^verbatim>\<open>Crew.kickoff\<close>: the
  run is running and its context empty.\<close>

definition kickoff :: "world \<Rightarrow> task list \<Rightarrow> run" where
  "kickoff w ts =
    run_tasks w ts
      \<lparr>status = Running, accumulated_context = [], executed = [], outcome = Inr [],
       failed_role = None\<rparr>"


section \<open>The DataFrame and the derived metrics\<close>

text \<open>Sequencing of steps that may raise: the first exception wins.\<close>

definition and_then :: "exn + 'a \<Rightarrow> ('a \<Rightarrow> exn + 'b) \<Rightarrow> exn + 'b" where
  "and_then x f = (case x of Inl e \<Rightarrow> Inl e | Inr v \<Rightarrow> f v)"

fun collect :: "(exn + 'a) list \<Rightarrow> exn + 'a list" where
  "collect [] = Inr []"
| "collect (x # xs) =
    (case x of
       Inl e \<Rightarrow> Inl e
     | Inr v \<Rightarrow> (case collect xs of Inl e \<Rightarrow> Inl e | Inr vs \<Rightarrow> Inr (v # vs)))"

text \<open>\<^verbatim>\<open>for coin in x\<close>: the elements of a list, the characters of a string, the keys of a
  dict; nothing else can be iterated.\<close>

fun py_iter :: "json \<Rightarrow> exn + json list" where
  "py_iter (JList xs) = Inr xs"
| "py_iter (JStr s) = Inr (map (\<lambda>c. JStr [c]) s)"
| "py_iter (JDict kvs) = Inr (map JStr (remdups (map fst kvs)))"
| "py_iter _ = Inl TypeError"

text \<open>The dict built for one coin, lines 270 to 275, field by field in the order written.\<close>

definition quote_field :: "json \<Rightarrow> string \<Rightarrow> exn + json" where
  "quote_field c k =
    and_then (py_item c ''quote'') (\<lambda>q. and_then (py_item q ''USD'') (\<lambda>u. py_item u k))"

definition raw_row :: "json \<Rightarrow> exn + coin" where
  "raw_row c =
    and_then (py_item c ''name'') (\<lambda>n.
    and_then (py_item c ''symbol'') (\<lambda>sy.
    and_then (quote_field c ''price'') (\<lambda>pr.
    and_then (quote_field c ''market_cap'') (\<lambda>mc.
    and_then (quote_field c ''volume_24h'') (\<lambda>vo.
    and_then (quote_field c ''percent_change_24h'') (\<lambda>ch.
      Inr \<lparr>name = n, symbol = sy, price = pr, market_cap = mc, volume_24h = vo,
           change_24h = ch\<rparr>))))))"

text \<open>Lines 269 to 276: one row for every element, the first exception ending the
  comprehension; the frame takes the values as they are.\<close>

definition build_df :: "json \<Rightarrow> exn + coin list" where
  "build_df d = and_then (py_iter d) (\<lambda>items. collect (map raw_row items))"

text \<open>Lines 286 to 288: the sum of the column divided by \<^verbatim>\<open>1e9\<close>, twice, and the mean
  of the column.\<close>

definition total_market_cap :: "builtins \<Rightarrow> coin list \<Rightarrow> exn + scalar" where
  "total_market_cap b df =
    and_then (series_sum b (map market_cap df)) (\<lambda>s. true_divide b s 1000000000)"

definition total_volume :: "builtins \<Rightarrow> coin list \<Rightarrow> exn + scalar" where
  "total_volume b df =
    and_then (series_sum b (map volume_24h df)) (\<lambda>s. true_divide b s 1000000000)"

definition avg_change :: "builtins \<Rightarrow> coin list \<Rightarrow> exn + scalar" where
  "avg_change b df = series_mean b (map change_24h df)"

text \<open>
  The format \<^verbatim>\<open>:.2f\<close> of a float: its exact value rounded to hundredths, a tie going
  to the even neighbour, a minus sign in front of every negative value.
\<close>

definition round_half_even :: "real \<Rightarrow> int" where
  "round_half_even x =
    (let f = \<lfloor>x\<rfloor>; d = x - of_int f in
     if d < 1 / 2 then f else if 1 / 2 < d then f + 1 else if even f then f else f + 1)"

definition fmt2f :: "real \<Rightarrow> string" where
  "fmt2f x =
    (let n = nat (round_half_even (\<bar>x\<bar> * 100)) in
     (if x < 0 then ''-'' else [])
     @ nat_str (n div 100) @ ''.'' @ [digit_char (n mod 100 div 10), digit_char (n mod 10)])"

fun format_2f :: "scalar \<Rightarrow> string" where
  "format_2f (Finite x) = fmt2f x"
| "format_2f Pos_inf = ''inf''"
| "format_2f Neg_inf = ''-inf''"
| "format_2f NaN = ''nan''"
| "format_2f Neg_zero = ''-0.00''"

section \<open>The final report\<close>

text \<open>Lines 289 to 302, from the three metrics and the text the kickoff returned.\<close>

definition data_summary :: "string \<Rightarrow> scalar \<Rightarrow> scalar \<Rightarrow> scalar \<Rightarrow> string" where
  "data_summary today cap vol chg =
    ''**Market Summary (as of '' @ today @ ''):**\<newline>\<newline>''
    @ ''- **Total Market Cap:** $'' @ format_2f cap @ ''B\<newline>''
    @ ''- **24h Volume:** $'' @ format_2f vol @ ''B\<newline>''
    @ ''- **Average 24h Change:** '' @ format_2f chg @ ''%\<newline>\<newline>''"

definition recommendation_footer :: string where
  "recommendation_footer =
    ''*Recommendation:* Monitor market drivers and adjust positions as needed ''
    @ ''for both long and short-term investments.''"

definition final_report :: "string \<Rightarrow> scalar \<Rightarrow> scalar \<Rightarrow> scalar \<Rightarrow> string \<Rightarrow> string" where
  "final_report today cap vol chg ai_report =
    ''### Executive Summary for '' @ today @ ''\<newline>\<newline>''
    @ data_summary today cap vol chg
    @ ''**Key AI Insights:**\<newline>''
    @ ai_report @ ''\<newline>\<newline>''
    @ recommendation_footer"

section \<open>The button handler\<close>

text \<open>\<^verbatim>\<open>df.head(n)\<close>: the first \<open>n\<close> rows, or all but the last \<open>-n\<close> for a negative \<open>n\<close>.\<close>

definition df_head :: "int \<Rightarrow> 'a list \<Rightarrow> 'a list" where
  "df_head n df = (if 0 \<le> n then take (nat n) df else take (length df - nat (- n)) df)"

text \<open>How a run of the handler ends: \<^verbatim>\<open>st.stop()\<close>, an exception nobody caught, or the
  last tab drawn, with the final report.\<close>

datatype ending = Stopped | Crashed exn | Rendered string

definition chart_open :: string where
  "chart_open = ''<div class='' @ [CHR 0x22] @ ''chart-container'' @ [CHR 0x22] @ ''>''"

definition show_all :: "ui_event list \<Rightarrow> session \<Rightarrow> session" where
  "show_all es s = foldl (\<lambda>s e. show_ui e s) s es"

text \<open>The first call that raises, in the order of a loop.\<close>

fun first_failure :: "('a \<Rightarrow> exn option) \<Rightarrow> 'a list \<Rightarrow> exn option" where
  "first_failure f [] = None"
| "first_failure f (x # xs) = (case f x of Some e \<Rightarrow> Some e | None \<Rightarrow> first_failure f xs)"

text \<open>Tab 1, lines 311 to 328: the three metrics, then the treemap, whose building may
  raise.\<close>

definition overview_tab ::
  "builtins \<Rightarrow> coin list \<Rightarrow> scalar \<Rightarrow> scalar \<Rightarrow> scalar \<Rightarrow> session \<Rightarrow> exn option \<times> session" where
  "overview_tab b df cap vol chg s =
    (let s1 = show_all
           [St_metric ''Total Market Cap'' (''$'' @ format_2f cap @ ''B''),
            St_metric ''24h Volume'' (''$'' @ format_2f vol @ ''B''),
            St_metric ''Avg 24h Change'' (format_2f chg @ ''%''),
            St_markdown chart_open] s in
     case px_treemap b df of
       Some e \<Rightarrow> (Some e, s1)
     | None \<Rightarrow> (None, show_all [St_plotly (Treemap df), St_markdown ''</div>''] s1))"

text \<open>Tab 2, lines 330 to 354: one price line for each of the first \<^verbatim>\<open>top_n\<close> rows; the
  series of a row and its trace may raise, and then nothing of the chart is drawn.\<close>

definition technical_tab ::
  "builtins \<Rightarrow> int \<Rightarrow> coin list \<Rightarrow> session \<Rightarrow> exn option \<times> session" where
  "technical_tab b n df s =
    (let s1 = show_ui (St_markdown chart_open) s in
     case first_failure (price_trace b) (df_head n df) of
       Some e \<Rightarrow> (Some e, s1)
     | None \<Rightarrow>
         (None, show_all [St_plotly (Price_lines (map symbol (df_head n df))),
                          St_markdown ''</div>''] s1))"

text \<open>Tab 4, lines 384 to 387: the frame sorted by market cap, which may raise.\<close>

definition data_tab :: "builtins \<Rightarrow> coin list \<Rightarrow> session \<Rightarrow> exn option \<times> session" where
  "data_tab b df s =
    (let s1 = show_ui (St_subheader ''Detailed Cryptocurrency Data'') s in
     case sort_values b df of
       Some e \<Rightarrow> (Some e, s1)
     | None \<Rightarrow>
         (None, show_all [St_dataframe_sorted_desc ''market_cap'' df,
                          St_markdown ''Use the table above to sort and search for specific coins.'']
                  s1))"

text \<open>Tab 5, lines 389 to 391.\<close>

definition report_tab :: "string \<Rightarrow> session \<Rightarrow> session" where
  "report_tab report s =
    show_all [St_subheader ''Final Executive Report'', St_markdown report] s"

text \<open>Lines 285 to 391: what follows a kickoff that returned. The metrics and the report
  are computed first, then the five tabs are drawn in order; the first exception ends the
  run.\<close>

definition render_results ::
  "world \<Rightarrow> builtins \<Rightarrow> string \<Rightarrow> parameters \<Rightarrow> coin list \<Rightarrow> string \<Rightarrow> session \<Rightarrow> ending \<times> session" where
  "render_results w b today p df ai_report s =
    (case total_market_cap b df of
       Inl e \<Rightarrow> (Crashed e, s)
     | Inr cap \<Rightarrow>
    (case total_volume b df of
       Inl e \<Rightarrow> (Crashed e, s)
     | Inr vol \<Rightarrow>
    (case avg_change b df of
       Inl e \<Rightarrow> (Crashed e, s)
     | Inr chg \<Rightarrow>
    (let report = final_report today cap vol chg ai_report;
         s1 = show_ui (St_tabs [''Market Overview'', ''Technical Analysis'', ''Sentiment'',
                                ''Detailed Data'', ''Final Report'']) s in
     case overview_tab b df cap vol chg s1 of
       (Some e, s2) \<Rightarrow> (Crashed e, s2)
     | (None, s2) \<Rightarrow>
    (case technical_tab b (top_n p) df s2 of
       (Some e, s3) \<Rightarrow> (Crashed e, s3)
     | (None, s3) \<Rightarrow>
    (case sentiment_tab b (net w) s3 of
       (Inl e, s4) \<Rightarrow> (Crashed e, s4)
     | (Inr u, s4) \<Rightarrow>
    (case data_tab b df s4 of
       (Some e, s5) \<Rightarrow> (Crashed e, s5)
     | (None, s5) \<Rightarrow> (Rendered report, report_tab report s5))))))))"

text \<open>
  Lines 264 to 283, from the value \<^verbatim>\<open>fetch_market_data\<close> returned: the guard on
  \<^verbatim>\<open>market_data.get("data")\<close>, the DataFrame, the kickoff inside its \<^verbatim>\<open>try\<close>. The second
  component counts the calls of \<^verbatim>\<open>crypto_crew.kickoff()\<close> and holds the run of the last.
\<close>

definition after_fetch ::
  "world \<Rightarrow> builtins \<Rightarrow> string \<Rightarrow> parameters \<Rightarrow> json \<Rightarrow> session \<Rightarrow> (ending \<times> session) \<times> run list" where
  "after_fetch w b today p market_data s =
    (case py_get market_data ''data'' of
       Inl e \<Rightarrow> ((Crashed e, s), [])
     | Inr d \<Rightarrow>
        if \<not> truthy d then
          ((Stopped, show_ui (St_error ''No market data returned from API.'') s), [])
        else
          (case build_df d of
             Inl e \<Rightarrow> ((Crashed e, s), [])
           | Inr df \<Rightarrow>
              (let r = kickoff w (crew_tasks today p) in
               case outcome r of
                 Inl e \<Rightarrow>
                   ((Stopped, show_ui (St_error_exc ''Error during AI analysis: '' e) s), [r])
               | Inr ai_report \<Rightarrow> (render_results w b today p df ai_report s, [r]))))"

text \<open>The handler of the button, lines 261 to 391.\<close>

definition generate_analysis ::
  "world \<Rightarrow> builtins \<Rightarrow> config \<Rightarrow> string \<Rightarrow> parameters \<Rightarrow> session \<Rightarrow> (ending \<times> session) \<times> run list" where
  "generate_analysis w b cfg today p s =
    (case fetch_market_data (module_globals cfg) (net w) s of
       (Inl e, s1) \<Rightarrow> ((Crashed e, s1), [])
     | (Inr market_data, s1) \<Rightarrow> after_fetch w b today p market_data s1)"

section \<open>Concrete inputs\<close>

definition example_config :: config where
  "example_config =
    \<lparr>coinmarketcap_api_key = ''cmc-key'', gemini_api_key = ''gem-key'',
     model = ''gemini/gemini-1.5-flash''\<rparr>"

definition example_today :: string where
  "example_today = ''November 04, 2026''"

definition example_parameters :: parameters where
  "example_parameters =
    \<lparr>timeframe = TF_24H, top_n = 5, update_freq = Every_1min, use_case = General_Overview,
     additional_note = ''Watch ETH''\<rparr>"

definition example_coin :: "real \<Rightarrow> real \<Rightarrow> real \<Rightarrow> coin" where
  "example_coin cap vol chg =
    \<lparr>name = JStr ''Coin'', symbol = JStr ''CN'', price = JFloat (Finite 1),
     market_cap = JFloat (Finite cap), volume_24h = JFloat (Finite vol),
     change_24h = JFloat (Finite chg)\<rparr>"

definition example_listing :: "real \<Rightarrow> real \<Rightarrow> real \<Rightarrow> json" where
  "example_listing cap vol chg =
    JDict [(''name'', JStr ''Coin''), (''symbol'', JStr ''CN''),
           (''quote'', JDict [(''USD'', JDict [(''price'', JFloat (Finite 1)),
              (''market_cap'', JFloat (Finite cap)), (''volume_24h'', JFloat (Finite vol)),
              (''percent_change_24h'', JFloat (Finite chg))])])]"

definition example_market_data :: json where
  "example_market_data =
    JDict [(''data'', JList [example_listing 100 7 2, example_listing 50 3 (- 4)])]"

definition fear_record :: json where
  "fear_record = JDict [(''value'', JStr ''45''), (''value_classification'', JStr ''Fear'')]"

definition offline :: "request \<Rightarrow> http_outcome" where
  "offline r = Get_raises ''connection refused''"

definition online :: "request \<Rightarrow> http_outcome" where
  "online r =
    (if url r = url sentiment_request then Json_body (JDict [(''data'', JList [fear_record])])
     else Json_body example_market_data)"

text \<open>A sentiment source that answers with a record that is no object, and a market
  source that answers with a listing without coins.\<close>

definition broken_feed :: "request \<Rightarrow> http_outcome" where
  "broken_feed r = Json_body (JDict [(''data'', JList [JInt 7])])"

definition empty_listing :: "request \<Rightarrow> http_outcome" where
  "empty_listing r = Json_body (JDict [(''data'', JList [])])"

text \<open>
  A library for the examples. On a column of finite floats it sums and averages exactly,
  which is what pandas gives on the columns used below; the two quotients it tabulates
  are the floats nearest to \<^verbatim>\<open>150 / 1e9\<close> and \<^verbatim>\<open>10 / 1e9\<close>, every other quotient it
  leaves exact and none of those is used; no chart and no sorting raises.
\<close>

fun finite_floats :: "json list \<Rightarrow> real list option" where
  "finite_floats [] = Some []"
| "finite_floats (JFloat (Finite x) # js) =
    (case finite_floats js of None \<Rightarrow> None | Some xs \<Rightarrow> Some (x # xs))"
| "finite_floats (j # js) = None"

definition example_sum :: "json list \<Rightarrow> exn + scalar" where
  "example_sum js =
    (case finite_floats js of None \<Rightarrow> Inl TypeError | Some xs \<Rightarrow> Inr (Finite (sum_list xs)))"

definition example_mean :: "json list \<Rightarrow> exn + scalar" where
  "example_mean js =
    (case finite_floats js of
       None \<Rightarrow> Inl TypeError
     | Some xs \<Rightarrow> Inr (if xs = [] then NaN else Finite (sum_list xs / real (length xs))))"

fun example_divide :: "scalar \<Rightarrow> real \<Rightarrow> exn + scalar" where
  "example_divide (Finite x) y =
    Inr (Finite
      (if x = 150 \<and> y = 1000000000 then 2833419889721787 / 18889465931478580854784
       else if x = 10 \<and> y = 1000000000 then 3022314549036573 / 302231454903657293676544
       else x / y))"
| "example_divide s y = Inr s"

definition example_builtins :: builtins where
  "example_builtins =
    \<lparr>py_str = (\<lambda>v. ''<value>''),
     py_float = (\<lambda>v. if v = JStr ''45'' then Inr (Finite 45)
                      else Inl (ValueError ''could not convert'')),
     series_sum = example_sum,
     series_mean = example_mean,
     true_divide = example_divide,
     px_treemap = (\<lambda>df. None),
     price_trace = (\<lambda>c. None),
     sort_values = (\<lambda>df. None)\<rparr>"

definition steady_world :: world where
  "steady_world =
    \<lparr>net = offline,
     wants_tools = (\<lambda>i. False),
     tool_invoke = (\<lambda>i q n. None),
     llm_generate = (\<lambda>i pr. Inr ''Markets are calm.'')\<rparr>"


definition broken_sentiment_world :: world where
  "broken_sentiment_world = steady_world\<lparr>net := broken_feed\<rparr>"

definition empty_market_world :: world where
  "empty_market_world = steady_world\<lparr>net := empty_listing\<rparr>"

definition example_report :: string where
  "example_report =
    ''### Executive Summary for November 04, 2026\<newline>\<newline>''
    @ ''**Market Summary (as of November 04, 2026):**\<newline>\<newline>''
    @ ''- **Total Market Cap:** $0.00B\<newline>''
    @ ''- **24h Volume:** $0.00B\<newline>''
    @ ''- **Average 24h Change:** -1.00%\<newline>\<newline>''
    @ ''**Key AI Insights:**\<newline>Markets are calm.\<newline>\<newline>''
    @ ''*Recommendation:* Monitor market drivers and adjust positions as needed ''
    @ ''for both long and short-term investments.''"

section \<open>The market-data request\<close>

lemma api_name_unbound: "map_of (module_globals cfg) ''COINMARKETCAP_API'' = None"
  by (simp add: module_globals_def)

lemma fetch_market_data_raises:
  "fetch_market_data (module_globals cfg) nt s = (Inl (NameError ''COINMARKETCAP_API''), s)"
  by (simp add: fetch_market_data_def lookup_name_def api_name_unbound)

lemma int_str_5: "int_str 5 = ''5''"
  by (simp add: int_str_def nat_str.simps digit_char_def)

text \<open>
  C1: the claim has \<^verbatim>\<open>fetch_market_data\<close> return the empty dict on every invocation, the
  handler of its \<^verbatim>\<open>try\<close> having caught the NameError. The code does otherwise, on
  every invocation: the headers are built before the \<^verbatim>\<open>try\<close>, so the NameError for
  \<^verbatim>\<open>COINMARKETCAP_API\<close> leaves the function, nothing is returned, no request is handed
  to the network and nothing is shown; the button handler ends with the exception
  uncaught, without reaching the guard on missing data and without a kickoff.
\<close>

theorem fetch_market_data_raises_name_error:
  "fetch_market_data (module_globals cfg) (net w) s = (Inl (NameError ''COINMARKETCAP_API''), s)
   \<and> generate_analysis w b cfg today p s = ((Crashed (NameError ''COINMARKETCAP_API''), s), [])"
  by (simp add: generate_analysis_def fetch_market_data_raises)

text \<open>
  C5, as stated, fails: with the slider at 5 the request does not ask for 5 coins.
\<close>

theorem market_request_limit_not_coin_count:
  "map_of (params (market_request ''cmc-key'')) ''limit'' \<noteq> Some (int_str (top_n example_parameters))"
  by (simp add: market_request_def market_params_def example_parameters_def int_str_5)

text \<open>
  C5, amended: the market-data request asks for the top 20 coins, a fixed number that does
  not follow the coin-count input, starting at rank 1, sorted by market capitalization in
  descending order, converted to USD.
\<close>

theorem market_request_top_twenty:
  "map_of (params (market_request key)) ''limit'' = Some (int_str 20)
   \<and> map_of (params (market_request key)) ''start'' = Some (int_str 1)
   \<and> map_of (params (market_request key)) ''sort'' = Some ''market_cap''
   \<and> map_of (params (market_request key)) ''sort_dir'' = Some ''desc''
   \<and> map_of (params (market_request key)) ''convert'' = Some ''USD''"
  by (simp add: market_request_def market_params_def int_str_def nat_str.simps digit_char_def)

section \<open>The task descriptions\<close>

lemma sub_here: "sublist x (x @ r)"
  by simp

lemma sub_later: "sublist x r \<Longrightarrow> sublist x (a @ r)"
  by (metis sublist_append)

lemma nth_crew_tasks:
  "crew_tasks today p ! 0 = market_analysis today p"
  "crew_tasks today p ! 1 = technical_analysis today p"
  "crew_tasks today p ! Suc 0 = technical_analysis today p"
  "crew_tasks today p ! 2 = sentiment_task today p"
  "crew_tasks today p ! 3 = report_generation today p"
  by (simp_all add: crew_tasks_def numeral_3_eq_3)

lemma market_description_has:
  "sublist today (market_analysis_description today p)"
  "sublist (timeframe_str (timeframe p)) (market_analysis_description today p)"
  "sublist (int_str (top_n p)) (market_analysis_description today p)"
  unfolding market_analysis_description_def report_date_line_def append_assoc
  by (rule sub_here | rule sub_later)+

lemma technical_description_has:
  "sublist today (technical_analysis_description today p)"
  "sublist (timeframe_str (timeframe p)) (technical_analysis_description today p)"
  "sublist (int_str (top_n p)) (technical_analysis_description today p)"
  unfolding technical_analysis_description_def report_date_line_def append_assoc
  by (rule sub_here | rule sub_later)+

lemma sentiment_description_has:
  "sublist today (sentiment_task_description today p)"
  "sublist (timeframe_str (timeframe p)) (sentiment_task_description today p)"
  unfolding sentiment_task_description_def report_date_line_def append_assoc
  by (rule sub_here | rule sub_later)+

lemma report_description_has:
  "sublist today (report_generation_description today p)"
  unfolding report_generation_description_def report_date_line_def append_assoc
  by (rule sub_here | rule sub_later)+

text \<open>
  C2, as stated, fails: on November 04, 2026, with timeframe 24H and 5 coins, the
  description of the sentiment task does not contain the coin count, and the description
  of the report task does not contain the timeframe.
\<close>

theorem later_tasks_omit_parameters:
  "\<not> sublist (int_str (top_n example_parameters))
        (description (crew_tasks example_today example_parameters ! 2))
   \<and> \<not> sublist (timeframe_str (timeframe example_parameters))
        (description (crew_tasks example_today example_parameters ! 3))"
  by (simp add: nth_crew_tasks sentiment_task_def report_generation_def
      sentiment_task_description_def report_generation_description_def report_date_line_def
      example_parameters_def example_today_def int_str_5 sublist_code(3))

text \<open>
  C2, amended: for all parameter sets the task sequence has exactly 4 tasks and every
  description contains the current date; the descriptions of the market-analysis and the
  technical-analysis task contain the timeframe and the coin count verbatim; the
  description of the sentiment task contains the timeframe and is built without the coin
  count; the description of the report task is built without the timeframe and without
  the coin count.
\<close>

theorem task_descriptions_carry_parameters:
  "length (crew_tasks today p) = 4
   \<and> sublist today (description (crew_tasks today p ! 0))
   \<and> sublist today (description (crew_tasks today p ! 1))
   \<and> sublist today (description (crew_tasks today p ! 2))
   \<and> sublist today (description (crew_tasks today p ! 3))
   \<and> sublist (timeframe_str (timeframe p)) (description (crew_tasks today p ! 0))
   \<and> sublist (int_str (top_n p)) (description (crew_tasks today p ! 0))
   \<and> sublist (timeframe_str (timeframe p)) (description (crew_tasks today p ! 1))
   \<and> sublist (int_str (top_n p)) (description (crew_tasks today p ! 1))
   \<and> sublist (timeframe_str (timeframe p)) (description (crew_tasks today p ! 2))
   \<and> description (crew_tasks today (p\<lparr>top_n := n\<rparr>) ! 2) = description (crew_tasks today p ! 2)
   \<and> description (crew_tasks today (p\<lparr>timeframe := tf, top_n := n\<rparr>) ! 3)
       = description (crew_tasks today p ! 3)"
proof -
  have a: "length (crew_tasks today p) = 4"
    by (simp add: crew_tasks_def)
  have b: "description (crew_tasks today (p\<lparr>top_n := n\<rparr>) ! 2)
      = description (crew_tasks today p ! 2)"
    by (simp add: nth_crew_tasks sentiment_task_def sentiment_task_description_def)
  have c: "description (crew_tasks today (p\<lparr>timeframe := tf, top_n := n\<rparr>) ! 3)
      = description (crew_tasks today p ! 3)"
    by (simp add: nth_crew_tasks report_generation_def report_generation_description_def)
  show ?thesis
    using a b c
    by (simp add: nth_crew_tasks market_analysis_def technical_analysis_def sentiment_task_def
        report_generation_def market_description_has technical_description_has
        sentiment_description_has report_description_has)
qed

section \<open>The derived metrics\<close>

lemma example_columns:
  "series_sum example_builtins (map market_cap [example_coin 100 7 2, example_coin 50 3 (- 4)])
     = Inr (Finite 150)"
  "series_sum example_builtins (map volume_24h [example_coin 100 7 2, example_coin 50 3 (- 4)])
     = Inr (Finite 10)"
  "series_mean example_builtins (map change_24h [example_coin 100 7 2, example_coin 50 3 (- 4)])
     = Inr (Finite (- 1))"
  by (simp_all add: example_builtins_def example_sum_def example_mean_def example_coin_def)

lemma example_quotients:
  "true_divide example_builtins (Finite 150) 1000000000
     = Inr (Finite (2833419889721787 / 18889465931478580854784))"
  "true_divide example_builtins (Finite 10) 1000000000
     = Inr (Finite (3022314549036573 / 302231454903657293676544))"
  by (simp_all add: example_builtins_def)

lemma example_metrics:
  "total_market_cap example_builtins [example_coin 100 7 2, example_coin 50 3 (- 4)]
     = Inr (Finite (2833419889721787 / 18889465931478580854784))"
  "total_volume example_builtins [example_coin 100 7 2, example_coin 50 3 (- 4)]
     = Inr (Finite (3022314549036573 / 302231454903657293676544))"
  "avg_change example_builtins [example_coin 100 7 2, example_coin 50 3 (- 4)]
     = Inr (Finite (- 1))"
  using example_columns example_quotients
  by (simp_all add: total_market_cap_def total_volume_def avg_change_def and_then_def)

lemma first_failure_none: "first_failure (\<lambda>c. None) xs = None"
  by (induction xs) simp_all

lemma example_library_quiet:
  "px_treemap example_builtins = (\<lambda>df. None)"
  "price_trace example_builtins = (\<lambda>c. None)"
  "sort_values example_builtins = (\<lambda>df. None)"
  by (simp_all add: example_builtins_def)




section \<open>The sentiment index\<close>

lemma sentiment_record_non_dict:
  "\<forall>kvs. j \<noteq> JDict kvs \<Longrightarrow> sentiment_record j = Inr (JDict []) \<or> (\<exists>e. sentiment_record j = Inl e)"
  by (cases j) (auto simp add: sentiment_record_def split: sum.splits bool.splits)

lemma sentiment_record_dict:
  "sentiment_record (JDict kvs) =
    (case map_of kvs ''data'' of
       None \<Rightarrow> Inr (JDict [])
     | Some d \<Rightarrow> if truthy d then py_first d else Inr (JDict []))"
proof (cases "map_of kvs ''data''")
  case None
  then have "''data'' \<notin> fst ` set kvs" by (simp add: map_of_eq_None_iff)
  then show ?thesis using None by (simp add: sentiment_record_def)
next
  case (Some d)
  then have "''data'' \<in> fst ` set kvs" by (metis map_of_eq_None_iff option.distinct(1))
  then show ?thesis using Some by (simp add: sentiment_record_def)
qed

lemma py_first_record:
  "py_first d = Inr (JDict (kv # r)) \<Longrightarrow> \<exists>xs. d = JList (JDict (kv # r) # xs)"
  by (cases d rule: py_first.cases) auto

lemma sentiment_record_gives_record:
  assumes "sentiment_record j = Inr (JDict (kv # r))"
  shows "\<exists>kvs xs. j = JDict kvs \<and> map_of kvs ''data'' = Some (JList (JDict (kv # r) # xs))"
proof (cases "\<exists>kvs. j = JDict kvs")
  case True
  then obtain kvs where j: "j = JDict kvs" by blast
  show ?thesis
  proof (cases "map_of kvs ''data''")
    case None
    then show ?thesis using assms j by (simp add: sentiment_record_dict)
  next
    case (Some d)
    then have "py_first d = Inr (JDict (kv # r))"
      using assms j by (simp add: sentiment_record_dict split: if_splits)
    then show ?thesis using py_first_record Some j by blast
  qed
next
  case False
  then show ?thesis using sentiment_record_non_dict [of j] assms by auto
qed

lemma fetch_sentiment_fst:
  "fst (fetch_live_sentiment_data nt s) =
    Inr (case nt sentiment_request of
           Json_body j \<Rightarrow> (case sentiment_record j of Inl e \<Rightarrow> JDict [] | Inr v \<Rightarrow> v)
         | _ \<Rightarrow> JDict [])"
  by (simp add: fetch_live_sentiment_data_def sentiment_failed_def Let_def
      split: http_outcome.splits sum.splits)

text \<open>
  C10: \<^verbatim>\<open>fetch_live_sentiment_data\<close> never raises. When the request fails, the status is
  not 2xx, the body is not JSON, the body is no JSON object, or its \<^verbatim>\<open>data\<close> member is
  missing or empty, it returns the empty dict. When \<^verbatim>\<open>data\<close> is a non-empty list it
  returns the first element of that list, and a non-empty record comes back only as the
  first element of such a list.
\<close>

theorem fetch_live_sentiment_data_total:
  "(\<exists>v. fst (fetch_live_sentiment_data nt s) = Inr v)
   \<and> (\<forall>m. nt sentiment_request = Get_raises m \<or> nt sentiment_request = Status_raises m
          \<or> nt sentiment_request = Json_raises m
        \<longrightarrow> fst (fetch_live_sentiment_data nt s) = Inr (JDict []))
   \<and> (\<forall>j. nt sentiment_request = Json_body j \<and> (\<forall>kvs. j \<noteq> JDict kvs)
        \<longrightarrow> fst (fetch_live_sentiment_data nt s) = Inr (JDict []))
   \<and> (\<forall>kvs. nt sentiment_request = Json_body (JDict kvs)
          \<and> (case map_of kvs ''data'' of None \<Rightarrow> True | Some d \<Rightarrow> \<not> truthy d)
        \<longrightarrow> fst (fetch_live_sentiment_data nt s) = Inr (JDict []))
   \<and> (\<forall>kvs x xs. nt sentiment_request = Json_body (JDict kvs)
          \<and> map_of kvs ''data'' = Some (JList (x # xs))
        \<longrightarrow> fst (fetch_live_sentiment_data nt s) = Inr x)
   \<and> (\<forall>kv r. fst (fetch_live_sentiment_data nt s) = Inr (JDict (kv # r))
        \<longrightarrow> (\<exists>kvs xs. nt sentiment_request = Json_body (JDict kvs)
              \<and> map_of kvs ''data'' = Some (JList (JDict (kv # r) # xs))))"
proof (intro conjI allI impI)
  show "\<exists>v. fst (fetch_live_sentiment_data nt s) = Inr v"
    by (simp add: fetch_sentiment_fst)
next
  fix m
  assume "nt sentiment_request = Get_raises m \<or> nt sentiment_request = Status_raises m
          \<or> nt sentiment_request = Json_raises m"
  then show "fst (fetch_live_sentiment_data nt s) = Inr (JDict [])"
    by (auto simp add: fetch_sentiment_fst)
next
  fix j
  assume "nt sentiment_request = Json_body j \<and> (\<forall>kvs. j \<noteq> JDict kvs)"
  then show "fst (fetch_live_sentiment_data nt s) = Inr (JDict [])"
    using sentiment_record_non_dict [of j] by (auto simp add: fetch_sentiment_fst)
next
  fix kvs
  assume "nt sentiment_request = Json_body (JDict kvs)
          \<and> (case map_of kvs ''data'' of None \<Rightarrow> True | Some d \<Rightarrow> \<not> truthy d)"
  then show "fst (fetch_live_sentiment_data nt s) = Inr (JDict [])"
    by (auto simp add: fetch_sentiment_fst sentiment_record_dict split: option.splits)
next
  fix kvs x xs
  assume "nt sentiment_request = Json_body (JDict kvs)
          \<and> map_of kvs ''data'' = Some (JList (x # xs))"
  then show "fst (fetch_live_sentiment_data nt s) = Inr x"
    by (simp add: fetch_sentiment_fst sentiment_record_dict)
next
  fix kv r
  assume a: "fst (fetch_live_sentiment_data nt s) = Inr (JDict (kv # r))"
  show "\<exists>kvs xs. nt sentiment_request = Json_body (JDict kvs)
              \<and> map_of kvs ''data'' = Some (JList (JDict (kv # r) # xs))"
  proof (cases "nt sentiment_request")
    case (Json_body j)
    then have "sentiment_record j = Inr (JDict (kv # r))"
      using a by (simp add: fetch_sentiment_fst split: sum.splits)
    then show ?thesis using sentiment_record_gives_record Json_body by blast
  qed (use a in \<open>simp_all add: fetch_sentiment_fst\<close>)
qed


text \<open>C10 at two networks: one that refuses the connection, one that answers with a record.\<close>

theorem fetch_live_sentiment_data_total_witness:
  "offline sentiment_request = Get_raises ''connection refused''
   \<and> fst (fetch_live_sentiment_data offline fresh) = Inr (JDict [])
   \<and> online sentiment_request = Json_body (JDict [(''data'', JList [fear_record])])
   \<and> fst (fetch_live_sentiment_data online fresh) = Inr fear_record"
  using fetch_live_sentiment_data_total [of offline fresh]
    fetch_live_sentiment_data_total [of online fresh]
  by (simp add: offline_def online_def)

lemma fetch_sentiment_snd:
  "\<exists>es. snd (fetch_live_sentiment_data nt s) = s\<lparr>ui := ui s @ es, sent := sent s @ [sentiment_request]\<rparr>
     \<and> (\<forall>e\<in>set es. \<exists>m x. e = St_error_exc m x)"
proof -
  have a: "s\<lparr>ui := ui s, sent := sent s @ [sentiment_request]\<rparr> = s\<lparr>ui := ui s @ [], sent := sent s @ [sentiment_request]\<rparr>"
    by simp
  have b: "\<And>e. \<exists>es. s\<lparr>sent := sent s @ [sentiment_request], ui := ui s @ [St_error_exc ''Error fetching live sentiment data: '' e]\<rparr>
       = s\<lparr>ui := ui s @ es, sent := sent s @ [sentiment_request]\<rparr> \<and> (\<forall>e\<in>set es. \<exists>m x. e = St_error_exc m x)"
    by (rule_tac x="[St_error_exc ''Error fetching live sentiment data: '' e]" in exI) simp
  have c: "\<exists>es. s\<lparr>sent := sent s @ [sentiment_request]\<rparr>
       = s\<lparr>ui := ui s @ es, sent := sent s @ [sentiment_request]\<rparr> \<and> (\<forall>e\<in>set es. \<exists>m x. e = St_error_exc m x)"
    by (rule_tac x="[]" in exI) simp
  show ?thesis
    using b c
    by (simp add: fetch_live_sentiment_data_def sentiment_failed_def Let_def show_ui_def send_def
        split: http_outcome.splits sum.splits)
qed

lemma generate_fallback:
  assumes "fst (fetch_live_sentiment_data nt s0) = Inr sd" and "\<not> truthy sd"
  shows "generate_sentiment_analysis b nt s
     = (Inr (sd, sentiment_unavailable_text), snd (fetch_live_sentiment_data nt s))"
proof -
  have "fst (fetch_live_sentiment_data nt s) = Inr sd"
    using assms(1) by (simp add: fetch_sentiment_fst)
  then obtain s1 where "fetch_live_sentiment_data nt s = (Inr sd, s1)"
    by (cases "fetch_live_sentiment_data nt s") simp
  then show ?thesis using assms(2) by (simp add: generate_sentiment_analysis_def)
qed

lemma sentiment_tab_fallback:
  assumes "fst (fetch_live_sentiment_data nt s0) = Inr sd" and "\<not> truthy sd"
  shows "sentiment_tab b nt s
     = (Inr (), show_ui (St_markdown sentiment_unavailable_text)
          (show_ui (St_markdown ''### Sentiment Analysis Report'')
            (snd (fetch_live_sentiment_data nt (show_ui (St_subheader ''Market Sentiment Analysis'') s)))))"
  using assms(2) by (simp add: sentiment_tab_def generate_fallback [OF assms])

text \<open>What the tab does when the fetch returned a falsy value: the fixed text, no gauge,
  no exception.\<close>

lemma falsy_sentiment_falls_back:
  assumes "fst (fetch_live_sentiment_data nt s0) = Inr sd" and "\<not> truthy sd"
  shows "fst (generate_sentiment_analysis b nt s)
       = Inr (sd, ''Live sentiment data is currently unavailable.'')
    \<and> fst (sentiment_tab b nt s) = Inr ()
    \<and> ui (snd (sentiment_tab b nt s))
       = ui (snd (fetch_live_sentiment_data nt
              (show_ui (St_subheader ''Market Sentiment Analysis'') s)))
         @ [St_markdown ''### Sentiment Analysis Report'',
            St_markdown ''Live sentiment data is currently unavailable.'']"
  by (simp add: generate_fallback [OF assms] sentiment_tab_fallback [OF assms]
      sentiment_unavailable_text_def show_ui_def)

lemma broken_feed_record: "fst (fetch_live_sentiment_data broken_feed s) = Inr (JInt 7)"
  by (simp add: fetch_sentiment_fst broken_feed_def sentiment_record_dict)

lemma broken_feed_session:
  "snd (fetch_live_sentiment_data broken_feed s) = send sentiment_request s"
  by (simp add: fetch_live_sentiment_data_def Let_def broken_feed_def sentiment_record_dict)

lemma broken_feed_generate:
  "generate_sentiment_analysis b broken_feed s = (Inl AttributeError, send sentiment_request s)"
proof -
  have "fetch_live_sentiment_data broken_feed s = (Inr (JInt 7), send sentiment_request s)"
    using broken_feed_record [of s] broken_feed_session [of s]
    by (cases "fetch_live_sentiment_data broken_feed s") simp
  then show ?thesis by (simp add: generate_sentiment_analysis_def)
qed

text \<open>
  C7: the claim has every answer without usable data end in the fixed text, without a
  gauge and without an error. The code does otherwise when the sentiment source answers
  with status 200 and the body \<^verbatim>\<open>{"data": [7]}\<close>: \<^verbatim>\<open>fetch_live_sentiment_data\<close> returns
  7, which is truthy and no dict, \<^verbatim>\<open>generate_sentiment_analysis\<close> calls \<^verbatim>\<open>.get\<close> on it
  outside any \<^verbatim>\<open>try\<close>, and the AttributeError ends the run in the sentiment tab, after the
  subheader and before any report text.
\<close>

theorem unusable_sentiment_record_crashes:
  "fst (fetch_live_sentiment_data broken_feed fresh) = Inr (JInt 7)
   \<and> fst (generate_sentiment_analysis example_builtins broken_feed fresh) = Inl AttributeError
   \<and> sentiment_tab example_builtins broken_feed fresh
       = (Inl AttributeError,
          \<lparr>ui = [St_subheader ''Market Sentiment Analysis''], sent = [sentiment_request]\<rparr>)
   \<and> fst (render_results broken_sentiment_world example_builtins example_today example_parameters
        [example_coin 100 7 2, example_coin 50 3 (- 4)] ''Markets are calm.'' fresh)
       = Crashed AttributeError"
proof -
  have t: "sentiment_tab example_builtins broken_feed s
      = (Inl AttributeError, send sentiment_request
           (show_ui (St_subheader ''Market Sentiment Analysis'') s))" for s
    by (simp add: sentiment_tab_def broken_feed_generate)
  have n: "net broken_sentiment_world = broken_feed"
    by (simp add: broken_sentiment_world_def)
  have r: "fst (render_results broken_sentiment_world example_builtins example_today
        example_parameters [example_coin 100 7 2, example_coin 50 3 (- 4)]
        ''Markets are calm.'' fresh) = Crashed AttributeError"
    by (simp add: render_results_def Let_def example_metrics overview_tab_def technical_tab_def
        example_library_quiet first_failure_none n t)
  show ?thesis
    using r by (simp add: broken_feed_record broken_feed_generate t show_ui_def send_def fresh_def)
qed

section \<open>Runs of the orchestrator\<close>







lemma run_tasks_completed:
  "status r \<noteq> Completed \<Longrightarrow> status (run_tasks w ts r) = Completed \<Longrightarrow>
    length (accumulated_context (run_tasks w ts r)) = length (accumulated_context r) + length ts
    \<and> length (executed (run_tasks w ts r)) = length (executed r) + length ts"
proof (induction ts arbitrary: r)
  case Nil
  then show ?case by simp
next
  case (Cons t ts)
  let ?pr = "build_prompt w (length (executed r)) t (accumulated_context r)"
  show ?case
  proof (cases "llm_generate w (length (executed r)) ?pr")
    case (Inl reason)
    then show ?thesis using Cons.prems by (simp add: Let_def)
  next
    case (Inr tx)
    let ?r = "r\<lparr>accumulated_context := accumulated_context r @ [(role (agent t), tx)],
                executed := executed r @ [(t, ?pr, Inr tx)]\<rparr>"
    have "status ?r \<noteq> Completed" using Cons.prems(1) by simp
    moreover have "status (run_tasks w ts ?r) = Completed"
      using Cons.prems(2) Inr by (simp add: Let_def)
    ultimately show ?thesis using Cons.IH [of ?r] Inr by (simp add: Let_def)
  qed
qed


lemma kickoff_final_output:
  "status r \<noteq> Completed \<Longrightarrow> status (run_tasks w ts r) = Completed
   \<Longrightarrow> outcome (run_tasks w ts r) =
       Inr (if accumulated_context (run_tasks w ts r) = [] then []
            else snd (last (accumulated_context (run_tasks w ts r))))"
proof (induction ts arbitrary: r)
  case Nil
  then show ?case by simp
next
  case (Cons t ts)
  let ?pr = "build_prompt w (length (executed r)) t (accumulated_context r)"
  show ?case
  proof (cases "llm_generate w (length (executed r)) ?pr")
    case (Inl reason)
    then show ?thesis using Cons.prems by (simp add: Let_def)
  next
    case (Inr tx)
    let ?r = "r\<lparr>accumulated_context := accumulated_context r @ [(role (agent t), tx)],
                executed := executed r @ [(t, ?pr, Inr tx)]\<rparr>"
    have eq: "run_tasks w (t # ts) r = run_tasks w ts ?r" using Inr by (simp add: Let_def)
    have "status ?r \<noteq> Completed" using Cons.prems(1) by simp
    then show ?thesis using Cons.IH [of ?r] Cons.prems(2) unfolding eq by blast
  qed
qed




lemma kickoff_completed:
  "status (kickoff w ts) = Completed \<Longrightarrow>
    length (accumulated_context (kickoff w ts)) = length ts
    \<and> length (executed (kickoff w ts)) = length ts"
  using run_tasks_completed [of "\<lparr>status = Running, accumulated_context = [], executed = [],
      outcome = Inr [], failed_role = None\<rparr>" w ts]
  by (simp add: kickoff_def)





section \<open>The handler around the kickoff\<close>



lemma example_df:
  "build_df (JList [example_listing 100 7 2, example_listing 50 3 (- 4)])
    = Inr [example_coin 100 7 2, example_coin 50 3 (- 4)]"
  by (simp add: build_df_def and_then_def raw_row_def quote_field_def
      example_listing_def example_coin_def)

lemma example_data:
  "py_get example_market_data ''data'' = Inr (JList [example_listing 100 7 2, example_listing 50 3 (- 4)])"
  by (simp add: example_market_data_def)



text \<open>What the guard of line 264 does with a dict whose \<^verbatim>\<open>data\<close> is missing or falsy.\<close>

lemma guard_stops_on_empty_data:
  assumes "py_get market_data ''data'' = Inr d" and "\<not> truthy d"
  shows "after_fetch w b today p market_data s
      = ((Stopped, show_ui (St_error ''No market data returned from API.'') s), [])"
  using assms by (simp add: after_fetch_def)

text \<open>
  C3: the claim has a missing or empty market-data response end in a data-unavailable
  error shown to the user, with no kickoff and no report. The code does otherwise on the
  first part. With a market source whose listing holds no coin, the run of the handler
  ends with the NameError of \<^verbatim>\<open>fetch_market_data\<close> uncaught, before line 264: nothing is
  shown, \<^verbatim>\<open>No market data returned from API.\<close> least of all. And a body that decodes to
  an empty list or to null, were it returned, makes line 264 itself raise AttributeError.
  In each case there is no kickoff and no report.
\<close>

theorem missing_market_data_crashes_unreported:
  "net empty_market_world (market_request (coinmarketcap_api_key example_config))
     = Json_body (JDict [(''data'', JList [])])
   \<and> generate_analysis empty_market_world example_builtins example_config example_today
        example_parameters fresh
       = ((Crashed (NameError ''COINMARKETCAP_API''), \<lparr>ui = [], sent = []\<rparr>), [])
   \<and> after_fetch empty_market_world example_builtins example_today example_parameters
        (JList []) fresh
       = ((Crashed AttributeError, \<lparr>ui = [], sent = []\<rparr>), [])
   \<and> after_fetch empty_market_world example_builtins example_today example_parameters
        JNull fresh
       = ((Crashed AttributeError, \<lparr>ui = [], sent = []\<rparr>), [])"
  by (simp add: generate_analysis_def fetch_market_data_raises after_fetch_def fresh_def
      empty_market_world_def empty_listing_def)

section \<open>Composition of the final report\<close>

lemma run_tasks_outcome_completed:
  "outcome (run_tasks w ts r) = Inr x \<Longrightarrow> status (run_tasks w ts r) = Completed"
proof (induction ts arbitrary: r)
  case Nil
  then show ?case by simp
next
  case (Cons t ts)
  let ?pr = "build_prompt w (length (executed r)) t (accumulated_context r)"
  show ?case
  proof (cases "llm_generate w (length (executed r)) ?pr")
    case (Inl reason)
    then show ?thesis using Cons.prems by (simp add: Let_def)
  next
    case (Inr tx)
    let ?r = "r\<lparr>accumulated_context := accumulated_context r @ [(role (agent t), tx)],
                executed := executed r @ [(t, ?pr, Inr tx)]\<rparr>"
    have eq: "run_tasks w (t # ts) r = run_tasks w ts ?r" using Inr by (simp add: Let_def)
    show ?thesis using Cons.IH [of ?r] Cons.prems unfolding eq by blast
  qed
qed

lemma kickoff_returned:
  assumes "outcome (kickoff w ts) = Inr x" and "ts \<noteq> []"
  shows "status (kickoff w ts) = Completed
    \<and> length (accumulated_context (kickoff w ts)) = length ts
    \<and> x = snd (last (accumulated_context (kickoff w ts)))"
proof -
  let ?r0 = "\<lparr>status = Running, accumulated_context = [], executed = [],
      outcome = Inr [], failed_role = None\<rparr>"
  have c: "status (kickoff w ts) = Completed"
    using run_tasks_outcome_completed [of w ts ?r0 x] assms(1) by (simp add: kickoff_def)
  then have l: "length (accumulated_context (kickoff w ts)) = length ts"
    using kickoff_completed by blast
  then have ne: "accumulated_context (kickoff w ts) \<noteq> []" using assms(2) by auto
  have "outcome (kickoff w ts) = Inr (snd (last (accumulated_context (kickoff w ts))))"
    using kickoff_final_output [of ?r0 w ts] c ne by (simp add: kickoff_def)
  then show ?thesis using c l assms(1) by simp
qed

lemma report_tab_last: "last (ui (report_tab report s)) = St_markdown report"
  by (simp add: report_tab_def show_all_def show_ui_def)

lemma render_results_rendered:
  assumes "render_results w b today p df ai s = (Rendered report, s')"
  shows "\<exists>cap vol chg. total_market_cap b df = Inr cap \<and> total_volume b df = Inr vol
      \<and> avg_change b df = Inr chg \<and> report = final_report today cap vol chg ai
      \<and> last (ui s') = St_markdown report"
  using assms
  by (auto simp add: render_results_def Let_def report_tab_last
      split: prod.splits sum.splits option.splits)

lemma render_results_note:
  "render_results w b today (p\<lparr>additional_note := n\<rparr>) df ai s
    = render_results w b today p df ai s"
  by (auto simp add: render_results_def Let_def split: sum.splits prod.splits option.splits)

lemma note_only_through_kickoff:
  assumes "outcome (kickoff w (crew_tasks today (p\<lparr>additional_note := n\<rparr>)))
      = outcome (kickoff w (crew_tasks today p))"
  shows "fst (after_fetch w b today (p\<lparr>additional_note := n\<rparr>) market_data s)
      = fst (after_fetch w b today p market_data s)"
  using assms
  by (auto simp add: after_fetch_def Let_def render_results_note split: sum.splits)

lemma note_in_description:
  "additional_note p \<noteq> [] \<Longrightarrow>
    suffix (''\<newline>Note: '' @ additional_note p) (description (last (crew_tasks today p)))"
  by (simp add: crew_tasks_def report_generation_def report_generation_description_def suffix_def)

lemma steady_outcome:
  "outcome (kickoff steady_world (crew_tasks today p)) = Inr ''Markets are calm.''"
  by (simp add: kickoff_def crew_tasks_def Let_def steady_world_def)

lemma steady_sentiment:
  "fst (fetch_live_sentiment_data (net steady_world) s) = Inr (JDict [])"
  by (simp add: fetch_sentiment_fst steady_world_def offline_def)

lemma example_formats:
  "fmt2f (2833419889721787 / 18889465931478580854784) = ''0.00''"
  "fmt2f (3022314549036573 / 302231454903657293676544) = ''0.00''"
  "fmt2f (- 1) = ''-1.00''"
  by (simp_all add: fmt2f_def round_half_even_def Let_def nat_str.simps digit_char_def)

lemma example_report_composed:
  "final_report example_today (Finite (2833419889721787 / 18889465931478580854784))
     (Finite (3022314549036573 / 302231454903657293676544)) (Finite (- 1)) ''Markets are calm.''
    = example_report"
  by (simp add: final_report_def data_summary_def recommendation_footer_def example_formats
      example_today_def example_report_def)

lemma steady_rendered:
  "fst (fst (after_fetch steady_world example_builtins example_today p example_market_data s))
    = Rendered example_report"
proof -
  have n: "\<not> truthy (JDict [])" by simp
  note t = example_library_quiet
  have "fst (render_results steady_world example_builtins example_today p
      [example_coin 100 7 2, example_coin 50 3 (- 4)] ''Markets are calm.'' s)
    = Rendered example_report"
    by (simp add: render_results_def Let_def example_metrics overview_tab_def technical_tab_def
        data_tab_def t first_failure_none sentiment_tab_fallback [OF steady_sentiment n]
        example_report_composed)
  then show ?thesis
    by (simp add: after_fetch_def example_data example_df steady_outcome Let_def)
qed

text \<open>
  C8, as stated, fails: on two coins, with a model that always answers, the final
  document does not contain the note \<^verbatim>\<open>Watch ETH\<close>, and it is the same document letter
  for letter when the note is another one.
\<close>

theorem final_report_leaves_out_note:
  "additional_note example_parameters = ''Watch ETH''
   \<and> fst (fst (after_fetch steady_world example_builtins example_today example_parameters
        example_market_data fresh)) = Rendered example_report
   \<and> \<not> sublist ''Watch ETH'' example_report
   \<and> fst (fst (after_fetch steady_world example_builtins example_today
        (example_parameters\<lparr>additional_note := ''Sell everything''\<rparr>)
        example_market_data fresh)) = Rendered example_report"
proof -
  have "\<not> sublist ''Watch ETH'' example_report"
    by (simp add: example_report_def sublist_code(3))
  then show ?thesis
    by (simp add: steady_rendered example_parameters_def)
qed

text \<open>
  C8, amended: whenever the handler renders a final document, that document is built from
  the text the orchestrator returned (the output of the last task of a completed run),
  the three derived metrics and the run date, and from nothing else: a heading with the
  date, then the quantitative summary (the date and the three metrics, each written with
  two decimals), then the synthesis text, then the fixed recommendation footer. The
  optional note is no input of the composition: with another note and the same text from
  the orchestrator the document is the same; the note only ends the description of the
  last task.
\<close>

theorem final_report_composition:
  assumes "after_fetch w b today p market_data s = ((Rendered report, s'), runs)"
  shows "\<exists>d df cap vol chg ai_report.
      py_get market_data ''data'' = Inr d \<and> build_df d = Inr df
      \<and> total_market_cap b df = Inr cap \<and> total_volume b df = Inr vol
      \<and> avg_change b df = Inr chg
      \<and> runs = [kickoff w (crew_tasks today p)]
      \<and> status (kickoff w (crew_tasks today p)) = Completed
      \<and> ai_report = snd (last (accumulated_context (kickoff w (crew_tasks today p))))
      \<and> report =
          ''### Executive Summary for '' @ today @ ''\<newline>\<newline>''
          @ (''**Market Summary (as of '' @ today @ ''):**\<newline>\<newline>''
             @ ''- **Total Market Cap:** $'' @ format_2f cap @ ''B\<newline>''
             @ ''- **24h Volume:** $'' @ format_2f vol @ ''B\<newline>''
             @ ''- **Average 24h Change:** '' @ format_2f chg @ ''%\<newline>\<newline>'')
          @ ''**Key AI Insights:**\<newline>'' @ ai_report @ ''\<newline>\<newline>''
          @ ''*Recommendation:* Monitor market drivers and adjust positions as needed for both long and short-term investments.''
      \<and> last (ui s') = St_markdown report
      \<and> (\<forall>n. outcome (kickoff w (crew_tasks today (p\<lparr>additional_note := n\<rparr>)))
               = outcome (kickoff w (crew_tasks today p))
            \<longrightarrow> fst (fst (after_fetch w b today (p\<lparr>additional_note := n\<rparr>) market_data s))
               = Rendered report)
      \<and> (additional_note p \<noteq> [] \<longrightarrow>
            suffix (''\<newline>Note: '' @ additional_note p)
              (description (last (crew_tasks today p))))"
proof -
  obtain d where d: "py_get market_data ''data'' = Inr d"
    using assms by (cases "py_get market_data ''data''") (simp_all add: after_fetch_def)
  have t: "truthy d"
    using assms d by (auto simp add: after_fetch_def split: if_splits)
  obtain df where df: "build_df d = Inr df"
    using assms d t by (cases "build_df d") (simp_all add: after_fetch_def)
  let ?r = "kickoff w (crew_tasks today p)"
  obtain ai where ai: "outcome ?r = Inr ai"
    using assms d t df by (cases "outcome ?r") (simp_all add: after_fetch_def Let_def)
  have rr: "render_results w b today p df ai s = (Rendered report, s')" and runs: "runs = [?r]"
    using assms d t df ai by (simp_all add: after_fetch_def Let_def)
  have ne: "crew_tasks today p \<noteq> []" by (simp add: crew_tasks_def)
  note k = kickoff_returned [OF ai ne]
  obtain cap vol chg where m: "total_market_cap b df = Inr cap" "total_volume b df = Inr vol"
      "avg_change b df = Inr chg" "report = final_report today cap vol chg ai"
      "last (ui s') = St_markdown report"
    using render_results_rendered [OF rr] by blast
  have shape: "report =
          ''### Executive Summary for '' @ today @ ''\<newline>\<newline>''
          @ (''**Market Summary (as of '' @ today @ ''):**\<newline>\<newline>''
             @ ''- **Total Market Cap:** $'' @ format_2f cap @ ''B\<newline>''
             @ ''- **24h Volume:** $'' @ format_2f vol @ ''B\<newline>''
             @ ''- **Average 24h Change:** '' @ format_2f chg @ ''%\<newline>\<newline>'')
          @ ''**Key AI Insights:**\<newline>'' @ ai @ ''\<newline>\<newline>''
          @ ''*Recommendation:* Monitor market drivers and adjust positions as needed for both long and short-term investments.''"
    using m(4) by (simp add: final_report_def data_summary_def recommendation_footer_def)
  have same: "\<forall>n. outcome (kickoff w (crew_tasks today (p\<lparr>additional_note := n\<rparr>)))
               = outcome (kickoff w (crew_tasks today p))
            \<longrightarrow> fst (fst (after_fetch w b today (p\<lparr>additional_note := n\<rparr>) market_data s))
               = Rendered report"
    using note_only_through_kickoff [of w today _ p b market_data s] assms by simp
  show ?thesis
    using d df runs k m(1,2,3,5) shape same note_in_description [of p today] by blast
qed

text \<open>C8 on two coins, a model that always answers and the note \<^verbatim>\<open>Watch ETH\<close>.\<close>

theorem final_report_composition_witness:
  "fst (fst (after_fetch steady_world example_builtins example_today example_parameters
      example_market_data fresh)) = Rendered example_report
   \<and> last (ui (snd (fst (after_fetch steady_world example_builtins example_today
        example_parameters example_market_data fresh)))) = St_markdown example_report
   \<and> fst (fst (after_fetch steady_world example_builtins example_today
        (example_parameters\<lparr>additional_note := []\<rparr>) example_market_data fresh))
       = Rendered example_report
   \<and> suffix ''\<newline>Note: Watch ETH'' (description (last (crew_tasks example_today example_parameters)))"
proof -
  let ?X = "after_fetch steady_world example_builtins example_today example_parameters
      example_market_data fresh"
  have h: "?X = ((Rendered example_report, snd (fst ?X)), snd ?X)"
    using steady_rendered [of example_parameters fresh] by (metis prod.collapse)
  have nn: "additional_note example_parameters \<noteq> []"
    by (simp add: example_parameters_def)
  have o: "outcome (kickoff steady_world (crew_tasks example_today
        (example_parameters\<lparr>additional_note := []\<rparr>)))
      = outcome (kickoff steady_world (crew_tasks example_today example_parameters))"
    by (simp add: steady_outcome)
  show ?thesis
    using final_report_composition [OF h] nn o
    by (auto simp add: example_parameters_def steady_rendered)
qed

end
